theory Spec2Isabelle
  imports Main
begin

section \<open>Double-book records (models/accounting/base.py)\<close>

text \<open>
  Amounts are \<open>Money\<close> values of the single bookkeeping currency with two decimal
  places.  They are modelled as an \<open>int\<close> number of cents, so that addition,
  subtraction, comparison and \<open>min\<close> are exact.  The truth value of a \<open>Money\<close> is that
  of its amount: \<open>not m\<close> holds exactly when the amount is zero.
\<close>

type_synonym money = int

text \<open>
  Modelled from the spec: \<open>decimal_to_money\<close> of the \<open>payments\<close> module, which is not part
  of the sources at hand.  The spec's Money is "an amount with a fixed currency and exactly
  two fractional digits" whose arithmetic is exact, so wrapping a two-digit decimal into a
  Money leaves the number of cents as it is.
\<close>

definition decimal_to_money :: "int \<Rightarrow> money" where
  "decimal_to_money d = d"

text \<open>
  One half of a ledger, \<open>DoubleBookModel\<close> together with the \<open>total_amount\<close> field of
  \<open>BaseFinancialRecord\<close>.  The three \<open>_fromdb\<close> fields are the queryset annotations of
  \<open>DoubleBookQuerySet.with_remote_accounts\<close>; \<open>None\<close> stands for an attribute that is not
  set (reading it raises \<open>AttributeError\<close>).  \<open>split_manager\<close> lists the amounts of the
  split rows of the store that point at the record, which is what the related manager
  \<open>self.split_manager\<close> ranges over.  \<open>ident\<close> is the identity of the Python object: two
  records with equal fields are still two list entries.
\<close>

record DoubleBookModel =
  ident :: nat
  pk :: "nat option"
  timestamp :: int
  total_amount :: money
  matched_balance_fromdb :: "int option"
  unmatched_balance_fromdb :: "int option"
  fully_matched_fromdb :: "bool option"
  split_manager :: "int list"

text \<open>Which branch of \<open>matched_balance\<close> produced the value.\<close>

datatype balance_path = Annotation | NotInDb | DatabaseDeluge

text \<open>
  \<open>DoubleBookModel.matched_balance\<close>: the annotation when it is there; otherwise zero for
  a record without primary key; otherwise the performance warning is logged and the
  splits are aggregated with \<open>Coalesce(Sum('amount'), Decimal('0.00'))\<close>.
\<close>

definition matched_balance_via :: "'a DoubleBookModel_scheme \<Rightarrow> balance_path \<times> money" where
  "matched_balance_via self =
     (case matched_balance_fromdb self of
        Some a \<Rightarrow> (Annotation, decimal_to_money a)
      | None \<Rightarrow>
          (if pk self = None then (NotInDb, decimal_to_money 0)
           else (DatabaseDeluge, decimal_to_money (sum_list (split_manager self)))))"

definition matched_balance :: "'a DoubleBookModel_scheme \<Rightarrow> money" where
  "matched_balance self = snd (matched_balance_via self)"

definition unmatched_balance :: "'a DoubleBookModel_scheme \<Rightarrow> money" where
  "unmatched_balance self =
     (case unmatched_balance_fromdb self of
        Some a \<Rightarrow> decimal_to_money a
      | None \<Rightarrow> total_amount self - matched_balance self)"

text \<open>\<open>fully_matched\<close> ignores the database's flag: \<open>not self.unmatched_balance\<close>.\<close>

definition fully_matched :: "'a DoubleBookModel_scheme \<Rightarrow> bool" where
  "fully_matched self = (unmatched_balance self = 0)"

text \<open>
  \<open>DoubleBookQuerySet.with_remote_accounts\<close> on one row: the sum of the splits (zero when
  there is none), the total minus that sum, and the flag \<open>total_amount <= matched\<close>.
\<close>

definition with_remote_accounts :: "'a DoubleBookModel_scheme \<Rightarrow> 'a DoubleBookModel_scheme" where
  "with_remote_accounts row =
     (if fully_matched_fromdb row \<noteq> None then row
      else
        (let m = sum_list (split_manager row) in
         row\<lparr>matched_balance_fromdb := Some m,
             unmatched_balance_fromdb := Some (total_amount row - m),
             fully_matched_fromdb := Some (total_amount row \<le> m)\<rparr>))"

text \<open>\<open>BaseDebtRecord\<close>: \<open>amount_paid\<close>, \<open>balance\<close> and \<open>paid\<close>.\<close>

definition amount_paid :: "'a DoubleBookModel_scheme \<Rightarrow> money" where
  "amount_paid self = matched_balance self"

definition balance :: "'a DoubleBookModel_scheme \<Rightarrow> money" where
  "balance self = unmatched_balance self"

definition paid :: "'a DoubleBookModel_scheme \<Rightarrow> bool" where
  "paid self = fully_matched self"

text \<open>\<open>BasePaymentRecord\<close>: \<open>credit_used\<close>, \<open>credit_remaining\<close> and \<open>fully_used\<close>.\<close>

definition credit_used :: "'a DoubleBookModel_scheme \<Rightarrow> money" where
  "credit_used self = matched_balance self"

definition credit_remaining :: "'a DoubleBookModel_scheme \<Rightarrow> money" where
  "credit_remaining self = unmatched_balance self"

definition fully_used :: "'a DoubleBookModel_scheme \<Rightarrow> bool" where
  "fully_used self = fully_matched self"

section \<open>Derived balances\<close>

lemma paid_iff_balance_zero: "paid d = (balance d = 0)"
  by (simp add: paid_def fully_matched_def balance_def)

lemma paid_within_invariant:
  "balance d \<ge> 0 \<Longrightarrow> paid d = (balance d \<le> 0)"
  by (auto simp: paid_iff_balance_zero)

text \<open>
  C7.  The claim reads: a debt is paid if and only if its balance is at most zero; in
  particular a debt whose matched balance reaches or exceeds its total is paid.  The
  queryset flag is computed that way, but the property \<open>paid\<close> tests the balance for
  being zero.  For a debt of 10.00 whose splits add up to 15.00 the balance is -5.00,
  the queryset flag says fully matched, and \<open>paid\<close> is false.
\<close>

theorem paid_overmatched_debt:
  "let d = with_remote_accounts
             \<lparr>ident = 0, pk = Some 1, timestamp = 0, total_amount = 1000,
              matched_balance_fromdb = None, unmatched_balance_fromdb = None,
              fully_matched_fromdb = None, split_manager = [1000, 500]\<rparr>
   in matched_balance d = 1500 \<and> balance d = - 500 \<and> balance d \<le> 0
      \<and> fully_matched_fromdb d = Some True \<and> \<not> paid d"
  by (simp add: with_remote_accounts_def matched_balance_def matched_balance_via_def
      balance_def unmatched_balance_def paid_def fully_matched_def decimal_to_money_def Let_def)

text \<open>
  C10.  A record that carries no queryset annotation and has no primary key has matched
  balance zero, reached without the database fallback, and its unmatched balance is its
  total amount.
\<close>

theorem unsaved_record_unmatched:
  assumes "matched_balance_fromdb r = None" and "unmatched_balance_fromdb r = None"
    and "pk r = None"
  shows "matched_balance r = 0 \<and> unmatched_balance r = total_amount r
         \<and> fst (matched_balance_via r) = NotInDb"
  using assms
  by (simp add: matched_balance_def matched_balance_via_def unmatched_balance_def
      decimal_to_money_def)

theorem unsaved_record_unmatched_witness:
  "matched_balance
     \<lparr>ident = 7, pk = None, timestamp = 3, total_amount = 2550,
      matched_balance_fromdb = None, unmatched_balance_fromdb = None,
      fully_matched_fromdb = None, split_manager = []\<rparr> = 0
   \<and> unmatched_balance
     \<lparr>ident = 7, pk = None, timestamp = 3, total_amount = 2550,
      matched_balance_fromdb = None, unmatched_balance_fromdb = None,
      fully_matched_fromdb = None, split_manager = []\<rparr> = 2550
   \<and> fst (matched_balance_via
     \<lparr>ident = 7, pk = None, timestamp = 3, total_amount = 2550,
      matched_balance_fromdb = None, unmatched_balance_fromdb = None,
      fully_matched_fromdb = None, split_manager = []\<rparr>) = NotInDb"
  using unsaved_record_unmatched
    [of "\<lparr>ident = 7, pk = None, timestamp = 3, total_amount = 2550,
      matched_balance_fromdb = None, unmatched_balance_fromdb = None,
      fully_matched_fromdb = None, split_manager = []\<rparr>"]
  by simp

end
